theory Spec2Isabelle
  imports Main "HOL-Library.AList" "HOL-Library.Char_ord" "HOL-Library.List_Lexorder"
    "HOL-Library.Sublist"
begin

section \<open>The environment of \<^verbatim>\<open>src/utils/env.py\<close>\<close>

text \<open>
  The module is a thin layer over \<^verbatim>\<open>pathlib\<close> and \<^verbatim>\<open>h5py\<close>. Its six functions are
  embedded over an explicit world: a POSIX file system (a finite table from normalised
  absolute paths to entries) and a trace of the container events the functions cause.
  Every function takes the world and returns its outcome together with the world it
  leaves behind, also when it raises: \<^verbatim>\<open>save_h5\<close> can fail after it has deleted.

  A path is the list of its components below the root; the root is \<open>[]\<close> and is always
  a directory. A container is the member list of its root group; a member is a dataset
  (its array value and the \<^verbatim>\<open>compression\<close> argument it was created with, which readers
  never see) or a group with members of its own. Member names are link names: the
  reading of \<^verbatim>\<open>/\<close> inside a name as a path through groups is not modelled.
\<close>

type_synonym path = "string list"

datatype 'a h5obj = Dataset 'a "string option" | Group "(string \<times> 'a h5obj) list"

type_synonym 'a members = "(string \<times> 'a h5obj) list"

datatype 'a entry = Dir | Regular | H5File "'a members"

datatype mode = Mode_r | Mode_a | Mode_w

datatype event = Opened path mode | Closed path | Materialized path string

datatype error =
    FileNotFoundError path
  | FileExistsError path
  | NotADirectoryError path
  | OSError path
  | ValueError_keys "string set" path
  | ValueError string
  | TypeError string
  | KeyError string
  | NotImplementedError string
  | IndexError

record 'a world =
  files :: "(path \<times> 'a entry) list"
  trace :: "event list"

definition stat :: "'a world \<Rightarrow> path \<Rightarrow> 'a entry option" where
  "stat w p = (if p = [] then Some Dir else map_of (files w) p)"

definition path_exists :: "'a world \<Rightarrow> path \<Rightarrow> bool" where
  "path_exists w p = (stat w p \<noteq> None)"

definition is_dir :: "'a world \<Rightarrow> path \<Rightarrow> bool" where
  "is_dir w p = (stat w p = Some Dir)"

text \<open>
  A file system keeps one entry per path, and every entry lies in a directory.
\<close>

definition wf_world :: "'a world \<Rightarrow> bool" where
  "wf_world w =
     (distinct (map fst (files w)) \<and>
      list_all (\<lambda>(p, e). p \<noteq> [] \<and> is_dir w (butlast p)) (files w))"

subsection \<open>\<^verbatim>\<open>make_dir\<close>\<close>

text \<open>
  \<^verbatim>\<open>os.mkdir\<close>: the path must be new and its parent an existing directory.
\<close>

definition os_mkdir :: "'a world \<Rightarrow> path \<Rightarrow> (error + unit) \<times> 'a world" where
  "os_mkdir w p =
     (if path_exists w p then (Inl (FileExistsError p), w)
      else case stat w (butlast p) of
             None \<Rightarrow> (Inl (FileNotFoundError p), w)
           | Some Dir \<Rightarrow> (Inr (), w\<lparr>files := AList.update p Dir (files w)\<rparr>)
           | Some _ \<Rightarrow> (Inl (NotADirectoryError p), w))"

text \<open>
  \<^verbatim>\<open>Path.mkdir(parents, exist_ok)\<close> as \<^verbatim>\<open>pathlib\<close> writes it: try \<^verbatim>\<open>os.mkdir\<close>; on
  \<^verbatim>\<open>FileNotFoundError\<close> make the parent with \<^verbatim>\<open>parents=True, exist_ok=True\<close> and try the
  path once more with \<^verbatim>\<open>parents=False\<close>; any other \<^verbatim>\<open>OSError\<close> is swallowed only when
  \<^verbatim>\<open>exist_ok\<close> holds and the path is a directory.
\<close>

function mkdir :: "'a world \<Rightarrow> path \<Rightarrow> bool \<Rightarrow> bool \<Rightarrow> (error + unit) \<times> 'a world" where
  "mkdir w p parents exist_ok =
     (case os_mkdir w p of
        (Inr u, w1) \<Rightarrow> (Inr u, w1)
      | (Inl (FileNotFoundError q), w1) \<Rightarrow>
          (if \<not> parents \<or> butlast p = p then (Inl (FileNotFoundError q), w1)
           else (case mkdir w1 (butlast p) True True of
                   (Inl e, w2) \<Rightarrow> (Inl e, w2)
                 | (Inr u, w2) \<Rightarrow> mkdir w2 p False exist_ok))
      | (Inl e, w1) \<Rightarrow>
          (if \<not> exist_ok \<or> \<not> is_dir w1 p then (Inl e, w1) else (Inr (), w1)))"
  by pat_completeness auto
termination
  by (relation "measure (\<lambda>(w, p, parents, exist_ok). 2 * length p + (if parents then 1 else 0))")
     (auto simp: butlast_conv_take)

declare mkdir.simps [simp del]

text \<open>\<^verbatim>\<open>make_dir(str)\<close> is \<^verbatim>\<open>Path(str).mkdir(parents=True, exist_ok=True)\<close>.\<close>

definition make_dir :: "'a world \<Rightarrow> path \<Rightarrow> (error + unit) \<times> 'a world" where
  "make_dir w str = mkdir w str True True"

subsection \<open>The container library\<close>

text \<open>
  A handle names a group of a container: the container's path and the group's place
  below the container's root (\<open>[]\<close> is the root group, which an \<^verbatim>\<open>h5py.File\<close> object
  stands for). What is written through a handle lands in the world at once.
\<close>

record handle =
  hfile :: path
  hgroup :: "string list"

fun get_group :: "'a members \<Rightarrow> string list \<Rightarrow> 'a members option" where
  "get_group m [] = Some m"
| "get_group m (g # gs) =
     (case map_of m g of Some (Group m') \<Rightarrow> get_group m' gs | _ \<Rightarrow> None)"

fun put_group :: "'a members \<Rightarrow> string list \<Rightarrow> 'a members \<Rightarrow> 'a members" where
  "put_group m [] new = new"
| "put_group m (g # gs) new =
     (case map_of m g of
        Some (Group m') \<Rightarrow> AList.update g (Group (put_group m' gs new)) m
      | _ \<Rightarrow> m)"

definition the_group :: "'a world \<Rightarrow> handle \<Rightarrow> 'a members option" where
  "the_group w h =
     (case stat w (hfile h) of Some (H5File m) \<Rightarrow> get_group m (hgroup h) | _ \<Rightarrow> None)"

definition set_group :: "'a world \<Rightarrow> handle \<Rightarrow> 'a members \<Rightarrow> 'a world" where
  "set_group w h new =
     (case stat w (hfile h) of
        Some (H5File m) \<Rightarrow>
          w\<lparr>files := AList.update (hfile h) (H5File (put_group m (hgroup h) new)) (files w)\<rparr>
      | _ \<Rightarrow> w)"


definition log_event :: "'a world \<Rightarrow> event \<Rightarrow> 'a world" where
  "log_event w e = w\<lparr>trace := trace w @ [e]\<rparr>"

text \<open>
  \<^verbatim>\<open>h5py.File(name, mode)\<close>. Mode \<^verbatim>\<open>r\<close> needs an existing container; \<^verbatim>\<open>a\<close> opens an
  existing container read-write and keeps its content, or creates one; \<^verbatim>\<open>w\<close> creates
  an empty container, over whatever file was there.
\<close>

definition h5_create :: "'a world \<Rightarrow> path \<Rightarrow> mode \<Rightarrow> (error + handle) \<times> 'a world" where
  "h5_create w name md =
     (case stat w name of
        Some Dir \<Rightarrow> (Inl (OSError name), w)
      | _ \<Rightarrow>
        (case stat w (butlast name) of
           None \<Rightarrow> (Inl (FileNotFoundError name), w)
         | Some Dir \<Rightarrow>
             (Inr \<lparr>hfile = name, hgroup = []\<rparr>,
              log_event (w\<lparr>files := AList.update name (H5File []) (files w)\<rparr>) (Opened name md))
         | Some _ \<Rightarrow> (Inl (NotADirectoryError name), w)))"

definition h5_File :: "'a world \<Rightarrow> path \<Rightarrow> mode \<Rightarrow> (error + handle) \<times> 'a world" where
  "h5_File w name md =
     (case md of
        Mode_w \<Rightarrow> h5_create w name Mode_w
      | _ \<Rightarrow>
        (case stat w name of
           None \<Rightarrow> (if md = Mode_r then (Inl (FileNotFoundError name), w) else h5_create w name md)
         | Some (H5File m) \<Rightarrow> (Inr \<lparr>hfile = name, hgroup = []\<rparr>, log_event w (Opened name md))
         | Some _ \<Rightarrow> (Inl (OSError name), w)))"

definition h5_close :: "'a world \<Rightarrow> handle \<Rightarrow> 'a world" where
  "h5_close w h = log_event w (Closed (hfile h))"

definition h5_keys :: "'a world \<Rightarrow> handle \<Rightarrow> string list" where
  "h5_keys w h = (case the_group w h of None \<Rightarrow> [] | Some m \<Rightarrow> map fst m)"





subsection \<open>\<^verbatim>\<open>open_hdf5\<close>\<close>

text \<open>
  The dictionary comprehension \<^verbatim>\<open>{key: f[key][:] for key in keys}\<close>: each \<^verbatim>\<open>f[key][:]\<close>
  copies the whole dataset into memory, which the trace records; a group cannot be
  sliced. The dictionary is a map, as two Python dictionaries are equal when they hold
  the same items.
\<close>

fun materialize ::
  "'a world \<Rightarrow> handle \<Rightarrow> string list \<Rightarrow> (string \<rightharpoonup> 'a) \<Rightarrow> (error + (string \<rightharpoonup> 'a)) \<times> 'a world" where
  "materialize w f [] acc = (Inr acc, w)"
| "materialize w f (key # keys) acc =
     (case the_group w f of
        None \<Rightarrow> (Inl (ValueError ''Invalid location identifier''), w)
      | Some m \<Rightarrow>
          (case map_of m key of
             None \<Rightarrow> (Inl (KeyError key), w)
           | Some (Group g) \<Rightarrow> (Inl (TypeError ''a group cannot be sliced''), w)
           | Some (Dataset d c) \<Rightarrow>
               materialize (log_event w (Materialized (hfile f) key)) f keys (acc(key \<mapsto> d))))"

text \<open>
  \<^verbatim>\<open>open_hdf5(file_path, *args)\<close>. The \<^verbatim>\<open>with\<close> block closes the file on every way out of
  its body, the \<^verbatim>\<open>raise\<close> included.
\<close>

definition open_hdf5 ::
  "'a world \<Rightarrow> path \<Rightarrow> string list \<Rightarrow> (error + (string \<rightharpoonup> 'a)) \<times> 'a world" where
  "open_hdf5 w file_path args =
     (case h5_File w file_path Mode_r of
        (Inl e, w1) \<Rightarrow> (Inl e, w1)
      | (Inr f, w1) \<Rightarrow>
          (let keys = (if args \<noteq> [] then args else h5_keys w1 f);
               missing_keys = set keys - set (h5_keys w1 f);
               (res, w2) =
                 (if missing_keys \<noteq> {} then (Inl (ValueError_keys missing_keys file_path), w1)
                  else materialize w1 f keys Map.empty)
           in (res, h5_close w2 f)))"

subsection \<open>\<^verbatim>\<open>make_h5\<close>, \<^verbatim>\<open>get_h5_object\<close>, \<^verbatim>\<open>save_h5\<close>\<close>





subsection \<open>\<^verbatim>\<open>fetch_files\<close>\<close>

text \<open>
  \<^verbatim>\<open>Path(directory).glob(pattern)\<close> after CPython 3.11's \<^verbatim>\<open>pathlib\<close>. The pattern is
  cut at \<^verbatim>\<open>/\<close> (empty and \<^verbatim>\<open>.\<close> components fall out) and each component becomes a
  selector: \<^verbatim>\<open>**\<close> walks the directory and every directory below it and yields no path
  twice; a component with \<^verbatim>\<open>*\<close>, \<^verbatim>\<open>?\<close> or \<^verbatim>\<open>[\<close> filters the names of a directory
  listing through \<^verbatim>\<open>fnmatch\<close>; any other component names one child. A component that
  is not the last one selects directories only. \<^verbatim>\<open>fnmatch\<close> on one name is the parameter
  \<open>fnmatch\<close>; \<open>wildcard\<close> is its reading of patterns made of \<^verbatim>\<open>*\<close>, \<^verbatim>\<open>?\<close> and
  literal characters. Symbolic links and \<^verbatim>\<open>..\<close> components are not modelled.
\<close>

fun split_on :: "char \<Rightarrow> string \<Rightarrow> string list" where
  "split_on sep [] = [[]]"
| "split_on sep (x # xs) =
     (if x = sep then [] # split_on sep xs
      else (case split_on sep xs of [] \<Rightarrow> [[x]] | y # ys \<Rightarrow> (x # y) # ys))"

definition pattern_parts :: "string \<Rightarrow> string list" where
  "pattern_parts pattern = filter (\<lambda>s. s \<noteq> [] \<and> s \<noteq> ''.'') (split_on CHR ''/'' pattern)"

definition is_wildcard_pattern :: "string \<Rightarrow> bool" where
  "is_wildcard_pattern pat = (CHR ''*'' \<in> set pat \<or> CHR ''?'' \<in> set pat \<or> CHR ''['' \<in> set pat)"

fun has_double_star :: "string \<Rightarrow> bool" where
  "has_double_star (a # b # cs) = ((a = CHR ''*'' \<and> b = CHR ''*'') \<or> has_double_star (b # cs))"
| "has_double_star cs = False"

definition children :: "'a world \<Rightarrow> path \<Rightarrow> path list" where
  "children w p = filter (\<lambda>q. q \<noteq> [] \<and> butlast q = p) (map fst (files w))"

definition dirs_under :: "'a world \<Rightarrow> path \<Rightarrow> path list" where
  "dirs_under w p = p # filter (\<lambda>q. strict_prefix p q \<and> is_dir w q) (map fst (files w))"

fun select :: "(string \<Rightarrow> string \<Rightarrow> bool) \<Rightarrow> 'a world \<Rightarrow> string list \<Rightarrow> path \<Rightarrow> path list" where
  "select fnmatch w [] p = [p]"
| "select fnmatch w (pat # child_parts) p =
     (let dironly = (child_parts \<noteq> []) in
      if pat = ''**'' then
        remdups (concat (map (select fnmatch w child_parts) (dirs_under w p)))
      else if is_wildcard_pattern pat then
        concat (map (select fnmatch w child_parts)
          (filter (\<lambda>c. (if dironly then is_dir w c else True) \<and> fnmatch pat (last c))
             (children w p)))
      else
        (let c = p @ [pat] in
         if (if dironly then is_dir w c else path_exists w c)
         then select fnmatch w child_parts c else []))"

text \<open>The patterns that \<^verbatim>\<open>glob\<close> takes without an error of its own.\<close>

definition valid_pattern :: "string \<Rightarrow> bool" where
  "valid_pattern pattern =
     (pattern \<noteq> [] \<and> hd pattern \<noteq> CHR ''/'' \<and> pattern_parts pattern \<noteq> [] \<and>
      \<not> list_ex (\<lambda>pat. pat \<noteq> ''**'' \<and> has_double_star pat) (pattern_parts pattern))"

definition glob ::
  "(string \<Rightarrow> string \<Rightarrow> bool) \<Rightarrow> 'a world \<Rightarrow> path \<Rightarrow> string \<Rightarrow> error + path list" where
  "glob fnmatch w self pattern =
     (if pattern = [] then Inl (ValueError ''Unacceptable pattern'')
      else if hd pattern = CHR ''/'' then
        Inl (NotImplementedError ''Non-relative patterns are unsupported'')
      else
        (let parts = pattern_parts pattern in
         if parts = [] then Inl IndexError
         else if list_ex (\<lambda>pat. pat \<noteq> ''**'' \<and> has_double_star pat) parts then
           Inl (ValueError ''Invalid pattern'')
         else if \<not> is_dir w self then Inr []
         else Inr (select fnmatch w parts self)))"

text \<open>
  \<^verbatim>\<open>fetch_files(pattern, directory)\<close>: \<^verbatim>\<open>sorted\<close> orders \<^verbatim>\<open>Path\<close> objects, which compare
  as their component lists do. The logger stands at level \<^verbatim>\<open>INFO\<close>, so the \<^verbatim>\<open>debug\<close>
  call leaves no mark.
\<close>

definition fetch_files ::
  "(string \<Rightarrow> string \<Rightarrow> bool) \<Rightarrow> 'a world \<Rightarrow> string \<Rightarrow> path \<Rightarrow> (error + path list) \<times> 'a world" where
  "fetch_files fnmatch w pattern directory =
     (case glob fnmatch w directory pattern of
        Inl e \<Rightarrow> (Inl e, w)
      | Inr found \<Rightarrow> (let files = sort found in (Inr files, w)))"

fun wildcard :: "string \<Rightarrow> string \<Rightarrow> bool" where
  "wildcard [] name = (name = [])"
| "wildcard (c # cs) [] = (c = CHR ''*'' \<and> wildcard cs [])"
| "wildcard (c # cs) (x # xs) =
     (if c = CHR ''*'' then wildcard cs (x # xs) \<or> wildcard (c # cs) xs
      else if c = CHR ''?'' then wildcard cs xs
      else c = x \<and> wildcard cs xs)"



subsection \<open>A small world\<close>

text \<open>
  A directory \<^verbatim>\<open>/data\<close> with three plain files and one container, whose root holds the
  datasets \<^verbatim>\<open>x\<close> and \<^verbatim>\<open>y\<close>.
\<close>

definition data_h5 :: path where
  "data_h5 = [''data'', ''f.h5'']"

definition small_world :: "int list world" where
  "small_world =
     \<lparr>files =
        [([''data''], Dir),
         ([''data'', ''c.txt''], Regular),
         ([''data'', ''b.csv''], Regular),
         ([''data'', ''a.txt''], Regular),
         ([''data'', ''f.h5''],
            H5File [(''x'', Dataset [1, 2, 3] (Some ''gzip'')), (''y'', Dataset [7] None)])],
      trace = []\<rparr>"


section \<open>The store\<close>

lemma stat_log_event [simp]: "stat (log_event w e) p = stat w p"
  by (simp add: stat_def log_event_def)

lemma files_log_event [simp]: "files (log_event w e) = files w"
  by (simp add: log_event_def)

lemma trace_log_event [simp]: "trace (log_event w e) = trace w @ [e]"
  by (simp add: log_event_def)

lemma the_group_log_event [simp]: "the_group (log_event w e) h = the_group w h"
  by (simp add: the_group_def)

lemma stat_root [simp]: "stat w [] = Some Dir"
  by (simp add: stat_def)

lemma stat_update:
  "p \<noteq> [] \<Longrightarrow> stat (w\<lparr>files := AList.update p e (files w)\<rparr>) q = (if q = p then Some e else stat w q)"
  by (simp add: stat_def update_conv')




lemma trace_set_group [simp]: "trace (set_group w h new) = trace w"
  by (simp add: set_group_def split: option.splits entry.splits)


section \<open>Reading: \<^verbatim>\<open>open_hdf5\<close>\<close>



lemma h5_File_R:
  "stat w p = Some (H5File m) \<Longrightarrow>
   h5_File w p Mode_r = (Inr \<lparr>hfile = p, hgroup = []\<rparr>, log_event w (Opened p Mode_r))"
  by (simp add: h5_File_def)

lemma the_group_root:
  "stat w p = Some (H5File m) \<Longrightarrow> the_group w \<lparr>hfile = p, hgroup = []\<rparr> = Some m"
  by (simp add: the_group_def)

lemma open_hdf5_unfold:
  assumes "stat w p = Some (H5File m)"
  shows "open_hdf5 w p args =
    (if set (if args \<noteq> [] then args else map fst m) - fst ` set m \<noteq> {} then
       (Inl (ValueError_keys (set (if args \<noteq> [] then args else map fst m) - fst ` set m) p),
        log_event (log_event w (Opened p Mode_r)) (Closed p))
     else
       (fst (materialize (log_event w (Opened p Mode_r)) \<lparr>hfile = p, hgroup = []\<rparr>
               (if args \<noteq> [] then args else map fst m) Map.empty),
        log_event (snd (materialize (log_event w (Opened p Mode_r)) \<lparr>hfile = p, hgroup = []\<rparr>
               (if args \<noteq> [] then args else map fst m) Map.empty)) (Closed p)))"
proof -
  have k: "h5_keys (log_event w (Opened p Mode_r)) \<lparr>hfile = p, hgroup = []\<rparr> = map fst m"
    using assms by (simp add: h5_keys_def the_group_root)
  show ?thesis
    by (simp add: open_hdf5_def h5_File_R [OF assms] k h5_close_def Let_def split: prod.splits)
qed

text \<open>
  Claim C1. When the file is a container and some explicitly requested key is not among
  its top-level keys, \<^verbatim>\<open>open_hdf5\<close> raises the \<^verbatim>\<open>ValueError\<close> that carries the set of
  missing keys (requested minus available, not empty) and the file path. The world it
  leaves behind differs from the one it found by two trace events only, the opening and
  the closing of the file: no dataset was materialized, and no value is returned.
\<close>

theorem open_hdf5_missing_keys:
  assumes "stat w file_path = Some (H5File m)"
    and "\<exists>key \<in> set args. key \<notin> fst ` set m"
  shows "open_hdf5 w file_path args =
           (Inl (ValueError_keys (set args - fst ` set m) file_path),
            w\<lparr>trace := trace w @ [Opened file_path Mode_r, Closed file_path]\<rparr>)
         \<and> set args - fst ` set m \<noteq> {}"
proof -
  from assms(2) have ne: "args \<noteq> []" and miss: "set args - fst ` set m \<noteq> {}"
    by auto
  show ?thesis
    using ne miss by (simp add: open_hdf5_unfold [OF assms(1)] log_event_def)
qed

theorem open_hdf5_missing_keys_witness:
  "open_hdf5 small_world data_h5 [''x'', ''z''] =
     (Inl (ValueError_keys {''z''} data_h5),
      small_world\<lparr>trace := [Opened data_h5 Mode_r, Closed data_h5]\<rparr>)"
  using open_hdf5_missing_keys
    [of small_world data_h5
        "[(''x'', Dataset [1, 2, 3] (Some ''gzip'')), (''y'', Dataset [7] None)]" "[''x'', ''z'']"]
  by (simp add: small_world_def data_h5_def stat_def)






section \<open>Writing: \<^verbatim>\<open>save_h5\<close>\<close>











section \<open>Opening: \<^verbatim>\<open>make_h5\<close> and \<^verbatim>\<open>get_h5_object\<close>\<close>















section \<open>Directories: \<^verbatim>\<open>make_dir\<close>\<close>

lemma path_exists_iff:
  "path_exists w p \<longleftrightarrow> p = [] \<or> p \<in> fst ` set (files w)"
  by (cases "p = []") (simp_all add: path_exists_def stat_def map_of_eq_None_iff)

lemma set_alist_update: "set (AList.update k v al) \<subseteq> insert (k, v) (set al)"
  by (induction al) auto

lemma wf_parent:
  assumes "wf_world w" and "path_exists w q" and "q \<noteq> []"
  shows "is_dir w (butlast q)"
proof -
  from assms(2,3) obtain e where "(q, e) \<in> set (files w)"
    by (auto simp: path_exists_iff)
  with assms(1) show ?thesis
    by (auto simp: wf_world_def list_all_iff)
qed

lemma is_dir_exists: "is_dir w p \<Longrightarrow> path_exists w p"
  by (simp add: is_dir_def path_exists_def)

lemma wf_prefix_dir:
  "wf_world w \<Longrightarrow> path_exists w q \<Longrightarrow> strict_prefix s q \<Longrightarrow> is_dir w s"
proof (induction q rule: rev_induct)
  case Nil
  then show ?case by simp
next
  case (snoc x qs)
  from wf_parent [OF snoc.prems(1,2)] have d: "is_dir w qs"
    by simp
  from snoc.prems(3) have "prefix s qs"
    by (auto simp: strict_prefix_def)
  then consider "s = qs" | "strict_prefix s qs"
    by (auto simp: strict_prefix_def)
  then show ?case
  proof cases
    case 1
    with d show ?thesis by simp
  next
    case 2
    with snoc.IH [OF snoc.prems(1) is_dir_exists [OF d]] show ?thesis by simp
  qed
qed

lemma os_mkdir_new:
  "\<not> path_exists w p \<Longrightarrow> is_dir w (butlast p) \<Longrightarrow>
   os_mkdir w p = (Inr (), w\<lparr>files := AList.update p Dir (files w)\<rparr>)"
  by (simp add: os_mkdir_def is_dir_def)

lemma os_mkdir_exists:
  "path_exists w p \<Longrightarrow> os_mkdir w p = (Inl (FileExistsError p), w)"
  by (simp add: os_mkdir_def)

lemma os_mkdir_orphan:
  "\<not> path_exists w p \<Longrightarrow> \<not> path_exists w (butlast p) \<Longrightarrow>
   os_mkdir w p = (Inl (FileNotFoundError p), w)"
  by (simp add: os_mkdir_def path_exists_def)

lemma wf_add_dir:
  assumes wf: "wf_world w" and ab: "\<not> path_exists w p" and par: "is_dir w (butlast p)"
  shows "wf_world (w\<lparr>files := AList.update p Dir (files w)\<rparr>)"
proof -
  let ?w = "w\<lparr>files := AList.update p Dir (files w)\<rparr>"
  have ne: "p \<noteq> []"
    using ab by (auto simp: path_exists_def)
  have st: "\<And>q. stat ?w q = (if q = p then Some Dir else stat w q)"
    using ne by (simp add: stat_update)
  have mono: "\<And>q. is_dir w q \<Longrightarrow> is_dir ?w q"
    by (simp add: is_dir_def st)
  have d: "distinct (map fst (files ?w))"
    using wf by (simp add: wf_world_def distinct_update)
  have "\<And>q e. (q, e) \<in> set (files ?w) \<Longrightarrow> q \<noteq> [] \<and> is_dir ?w (butlast q)"
  proof -
    fix q e
    assume "(q, e) \<in> set (files ?w)"
    then have "(q, e) \<in> set (files w) \<or> (q, e) = (p, Dir)"
      using set_alist_update [of p Dir "files w"] by auto
    then show "q \<noteq> [] \<and> is_dir ?w (butlast q)"
    proof
      assume "(q, e) \<in> set (files w)"
      with wf have "q \<noteq> [] \<and> is_dir w (butlast q)"
        by (auto simp: wf_world_def list_all_iff)
      then show ?thesis
        using mono by blast
    next
      assume "(q, e) = (p, Dir)"
      then show ?thesis
        using ne par mono by simp
    qed
  qed
  with d show ?thesis
    by (auto simp: wf_world_def list_all_iff)
qed

lemma mkdir_leaf_new:
  assumes "\<not> path_exists w p" and "is_dir w (butlast p)"
  shows "mkdir w p parents exist_ok = (Inr (), w\<lparr>files := AList.update p Dir (files w)\<rparr>)"
  by (subst mkdir.simps) (simp add: os_mkdir_new [OF assms])

lemma mkdir_existing_dir:
  assumes "is_dir w p"
  shows "mkdir w p parents True = (Inr (), w)"
  using assms
  by (subst mkdir.simps) (simp add: os_mkdir_exists [OF is_dir_exists [OF assms]])

lemma mkdir_orphan:
  assumes "\<not> path_exists w p" and "\<not> path_exists w (butlast p)"
  shows "mkdir w p True exist_ok =
           (case mkdir w (butlast p) True True of
              (Inl e, w2) \<Rightarrow> (Inl e, w2)
            | (Inr u, w2) \<Rightarrow> mkdir w2 p False exist_ok)"
proof -
  have "p \<noteq> []"
    using assms(1) by (auto simp: path_exists_def)
  then have "butlast p \<noteq> p"
    by (metis append_butlast_last_id append_self_conv not_Cons_self2)
  then show ?thesis
    by (subst mkdir.simps) (simp add: os_mkdir_orphan [OF assms])
qed

lemma add_dir_facts:
  assumes ab: "\<not> path_exists w p"
  shows "stat (w\<lparr>files := AList.update p Dir (files w)\<rparr>) q = (if q = p then Some Dir else stat w q)"
proof -
  have "p \<noteq> []"
    using ab by (auto simp: path_exists_def)
  then show ?thesis
    by (simp add: stat_update)
qed

lemma mkdir_parents_ok:
  "wf_world w \<Longrightarrow> (\<forall>q. prefix q p \<and> path_exists w q \<longrightarrow> is_dir w q) \<Longrightarrow>
   \<exists>w'. mkdir w p True True = (Inr (), w') \<and> wf_world w' \<and>
        (\<forall>q. prefix q p \<longrightarrow> is_dir w' q) \<and>
        (\<forall>q. path_exists w q \<longrightarrow> stat w' q = stat w q) \<and>
        (\<forall>q. path_exists w' q \<longrightarrow> path_exists w q \<or> prefix q p) \<and>
        trace w' = trace w \<and> (is_dir w p \<longrightarrow> w' = w)"
proof (induction p arbitrary: w rule: rev_induct)
  case Nil
  have "mkdir w [] True True = (Inr (), w)"
    by (rule mkdir_existing_dir) (simp add: is_dir_def)
  with Nil show ?case
    by (simp add: is_dir_def)
next
  case (snoc x ps)
  let ?p = "ps @ [x]"
  show ?case
  proof (cases "path_exists w ?p")
    case True
    with snoc.prems(2) have d: "is_dir w ?p"
      by blast
    have pre: "\<forall>q. prefix q ?p \<longrightarrow> is_dir w q"
    proof (intro allI impI)
      fix q assume "prefix q ?p"
      then consider "q = ?p" | "strict_prefix q ?p"
        by (auto simp: strict_prefix_def)
      then show "is_dir w q"
        using d wf_prefix_dir [OF snoc.prems(1) True] by cases auto
    qed
    have "mkdir w ?p True True = (Inr (), w)"
      by (rule mkdir_existing_dir [OF d])
    with snoc.prems(1) pre show ?thesis
      by simp
  next
    case False
    have sub: "\<forall>q. prefix q ps \<and> path_exists w q \<longrightarrow> is_dir w q"
      using snoc.prems(2) by (auto intro: prefix_order.trans)
    from snoc.IH [OF snoc.prems(1) sub] obtain w2 where
      run: "mkdir w ps True True = (Inr (), w2)" and wf2: "wf_world w2"
      and dirs: "\<forall>q. prefix q ps \<longrightarrow> is_dir w2 q"
      and keep: "\<forall>q. path_exists w q \<longrightarrow> stat w2 q = stat w q"
      and only: "\<forall>q. path_exists w2 q \<longrightarrow> path_exists w q \<or> prefix q ps"
      and tr: "trace w2 = trace w" and same: "is_dir w ps \<longrightarrow> w2 = w"
      by blast
    have nopre: "\<not> prefix ?p ps"
      by (auto simp: prefix_def)
    have ab2: "\<not> path_exists w2 ?p"
      using only False nopre by blast
    have par2: "is_dir w2 (butlast ?p)"
      using dirs by simp
    let ?w' = "w2\<lparr>files := AList.update ?p Dir (files w2)\<rparr>"
    have leaf: "mkdir w2 ?p parents True = (Inr (), ?w')" for parents
      by (rule mkdir_leaf_new [OF ab2 par2])
    have res: "mkdir w ?p True True = (Inr (), ?w')"
    proof (cases "path_exists w ps")
      case True
      with sub have "is_dir w ps"
        by blast
      with same have "w2 = w"
        by simp
      with leaf show ?thesis
        by simp
    next
      case no: False
      have "\<not> path_exists w (butlast ?p)"
        using no by simp
      from mkdir_orphan [OF False this, of True] show ?thesis
        by (simp add: run leaf)
    qed
    have st: "\<And>q. stat ?w' q = (if q = ?p then Some Dir else stat w2 q)"
      by (rule add_dir_facts [OF ab2])
    have wf': "wf_world ?w'"
      by (rule wf_add_dir [OF wf2 ab2 par2])
    have c1: "\<forall>q. prefix q ?p \<longrightarrow> is_dir ?w' q"
      using dirs by (auto simp: is_dir_def st)
    have c2: "\<forall>q. path_exists w q \<longrightarrow> stat ?w' q = stat w q"
      using keep False by (auto simp: st)
    have c3: "\<forall>q. path_exists ?w' q \<longrightarrow> path_exists w q \<or> prefix q ?p"
    proof (intro allI impI)
      fix q assume q: "path_exists ?w' q"
      show "path_exists w q \<or> prefix q ?p"
      proof (cases "q = ?p")
        case True
        then show ?thesis by simp
      next
        case False
        with q have "path_exists w2 q"
          by (simp add: path_exists_def st)
        with only show ?thesis
          by auto
      qed
    qed
    have c4: "trace ?w' = trace w"
      using tr by simp
    have c5: "is_dir w ?p \<longrightarrow> ?w' = w"
      using False by (auto dest: is_dir_exists)
    from res wf' c1 c2 c3 c4 c5 show ?thesis
      by blast
  qed
qed

text \<open>
  Claim C8. In a well-formed file system, for a path \<open>d\<close> none of whose existing
  prefixes (\<open>d\<close> included) is a non-directory: \<^verbatim>\<open>make_dir\<close> raises nothing, and afterwards
  \<open>d\<close> and every prefix of it is a directory, so all missing intermediate directories
  were created. Every path that existed keeps its entry, nothing but prefixes of \<open>d\<close> is
  new, and the trace is untouched. When \<open>d\<close> was a directory already the world is
  returned as it was, and a second \<^verbatim>\<open>make_dir\<close> on the result returns the result.
\<close>

theorem make_dir_ensures:
  assumes "wf_world w"
    and "\<forall>q. prefix q d \<and> path_exists w q \<longrightarrow> is_dir w q"
  shows "\<exists>w'. make_dir w d = (Inr (), w') \<and>
           (\<forall>q. prefix q d \<longrightarrow> is_dir w' q) \<and>
           (\<forall>q. path_exists w q \<longrightarrow> stat w' q = stat w q) \<and>
           (\<forall>q. path_exists w' q \<longrightarrow> path_exists w q \<or> prefix q d) \<and>
           trace w' = trace w \<and>
           (is_dir w d \<longrightarrow> w' = w) \<and>
           make_dir w' d = (Inr (), w')"
proof -
  from mkdir_parents_ok [OF assms] obtain w' where
    run: "mkdir w d True True = (Inr (), w')"
    and dirs: "\<forall>q. prefix q d \<longrightarrow> is_dir w' q"
    and rest: "\<forall>q. path_exists w q \<longrightarrow> stat w' q = stat w q"
      "\<forall>q. path_exists w' q \<longrightarrow> path_exists w q \<or> prefix q d"
      "trace w' = trace w" "is_dir w d \<longrightarrow> w' = w"
    by blast
  have "is_dir w' d"
    using dirs by simp
  then have "mkdir w' d True True = (Inr (), w')"
    by (rule mkdir_existing_dir)
  with run dirs rest show ?thesis
    unfolding make_dir_def by blast
qed

theorem make_dir_ensures_witness:
  "\<exists>w'. make_dir small_world [''data'', ''out'', ''run1''] = (Inr (), w') \<and>
         is_dir w' [''data'', ''out''] \<and> is_dir w' [''data'', ''out'', ''run1''] \<and>
         stat w' [''data'', ''a.txt''] = Some Regular \<and>
         make_dir w' [''data'', ''out'', ''run1''] = (Inr (), w') \<and>
         make_dir small_world [''data''] = (Inr (), small_world)"
proof -
  let ?d = "[''data'', ''out'', ''run1'']"
  have wf: "wf_world small_world"
    by (simp add: wf_world_def small_world_def is_dir_def stat_def)
  have pre: "\<forall>q. prefix q ?d \<and> path_exists small_world q \<longrightarrow> is_dir small_world q"
    by (auto simp: prefix_Cons path_exists_def is_dir_def stat_def small_world_def
        split: if_splits)
  have pre1: "\<forall>q. prefix q [''data''] \<and> path_exists small_world q \<longrightarrow> is_dir small_world q"
    by (auto simp: prefix_Cons path_exists_def is_dir_def stat_def small_world_def
        split: if_splits)
  have d1: "is_dir small_world [''data'']"
    by (simp add: is_dir_def stat_def small_world_def)
  have ex: "path_exists small_world [''data'', ''a.txt'']"
    by (simp add: path_exists_def stat_def small_world_def)
  from make_dir_ensures [OF wf pre] obtain w' where
    run: "make_dir small_world ?d = (Inr (), w')"
    and dirs: "\<forall>q. prefix q ?d \<longrightarrow> is_dir w' q"
    and keep: "\<forall>q. path_exists small_world q \<longrightarrow> stat w' q = stat small_world q"
    and again: "make_dir w' ?d = (Inr (), w')"
    by blast
  have a: "is_dir w' [''data'', ''out'']" "is_dir w' ?d"
    using dirs by simp_all
  have "stat w' [''data'', ''a.txt''] = stat small_world [''data'', ''a.txt'']"
    using keep ex by blast
  then have b: "stat w' [''data'', ''a.txt''] = Some Regular"
    by (simp add: stat_def small_world_def)
  from make_dir_ensures [OF wf pre1] d1
  have c: "make_dir small_world [''data''] = (Inr (), small_world)"
    by auto
  from run a b again c show ?thesis
    by blast
qed

section \<open>Finding files: \<^verbatim>\<open>fetch_files\<close>\<close>

lemma glob_valid:
  "valid_pattern pattern \<Longrightarrow>
   glob fnmatch w self pattern =
     (if is_dir w self then Inr (select fnmatch w (pattern_parts pattern) self) else Inr [])"
  by (simp add: glob_def valid_pattern_def Let_def)

lemma glob_never_not_found: "glob fnmatch w self pattern \<noteq> Inl (FileNotFoundError p)"
  by (simp add: glob_def Let_def)

text \<open>
  Claim C3, as the code has it. \<^verbatim>\<open>fetch_files\<close> never looks whether the directory exists,
  and \<^verbatim>\<open>Path.glob\<close> yields nothing from a path that is not a directory. So for a
  directory that does not exist and a pattern that \<^verbatim>\<open>glob\<close> accepts, \<^verbatim>\<open>fetch_files\<close>
  returns the empty list and raises nothing; and whatever the pattern, the outcome is
  never a \<^verbatim>\<open>FileNotFoundError\<close>. The claim as written, that the call fails, is refuted
  at the pattern \<^verbatim>\<open>*.txt\<close> and the missing directory \<^verbatim>\<open>/nowhere\<close>.
\<close>

theorem fetch_files_missing_directory:
  assumes "\<not> path_exists w directory"
  shows "(valid_pattern pattern \<longrightarrow> fetch_files fnmatch w pattern directory = (Inr [], w))
       \<and> (\<forall>p w'. fetch_files fnmatch w pattern directory \<noteq> (Inl (FileNotFoundError p), w'))"
proof (intro conjI allI impI)
  have nd: "\<not> is_dir w directory"
    using assms by (auto dest: is_dir_exists)
  assume "valid_pattern pattern"
  then show "fetch_files fnmatch w pattern directory = (Inr [], w)"
    using nd by (simp add: fetch_files_def glob_valid)
next
  fix p w'
  show "fetch_files fnmatch w pattern directory \<noteq> (Inl (FileNotFoundError p), w')"
    using glob_never_not_found [of fnmatch w directory pattern p]
    by (auto simp: fetch_files_def Let_def split: sum.splits)
qed

theorem fetch_files_missing_directory_witness:
  "\<not> path_exists small_world [''nowhere''] \<and> valid_pattern ''*.txt'' \<and>
   fetch_files wildcard small_world ''*.txt'' [''nowhere''] = (Inr [], small_world)"
proof -
  have a: "\<not> path_exists small_world [''nowhere'']"
    by (simp add: path_exists_def stat_def small_world_def)
  have v: "valid_pattern ''*.txt''"
    by (simp add: valid_pattern_def pattern_parts_def)
  from fetch_files_missing_directory [OF a, of "''*.txt''" wildcard] v a show ?thesis
    by simp
qed

theorem fetch_files_missing_directory_counterexample:
  "\<not> path_exists small_world [''nowhere''] \<and>
   fetch_files wildcard small_world ''*.txt'' [''nowhere''] = (Inr [], small_world)"
  by (simp add: path_exists_def stat_def small_world_def fetch_files_def glob_def
      pattern_parts_def is_dir_def)














declare select.simps(2) [simp del]












end
